theory Spec2Isabelle
  imports Complex_Main "HOL-Library.Char_ord" "HOL-Library.List_Lexorder" "HOL-Library.Multiset"
    "HOL-Library.Log_Nat"
begin

section \<open>The sales and ledger engine of the bakery point of sale\<close>

text \<open>
  The development follows \<^verbatim>\<open>services/db.ts\<close> (class \<^verbatim>\<open>DBService\<close>), the type
  declarations of \<^verbatim>\<open>types.ts\<close>, and the two handlers of the seller and admin views
  that call into it (\<^verbatim>\<open>handleResumeSale\<close>, \<^verbatim>\<open>saveEditedSale\<close>).

  A table of the remote store is the list of its rows in insertion order. The store is
  reliable: it refuses a request only for a reason visible in the data (an insert under
  a key that is taken); transport failures and interleavings of concurrent callers are
  outside the model, which runs one call after the other.
\<close>

subsection \<open>Numbers\<close>

text \<open>
  A field of type \<^verbatim>\<open>number\<close> that holds an amount of money (a price, a subtotal, a
  total, a debt) is an IEEE 754 double, with the arithmetic of the language: every sum
  and difference is rounded to the nearest double, ties to even, and there are the two
  infinities and \<^verbatim>\<open>NaN\<close>. A finite double is given by its value, a rational. The two
  zeros are not told apart: the only operations here are \<^verbatim>\<open>+\<close>, \<^verbatim>\<open>-\<close> and
  \<^verbatim>\<open>Math.max\<close>, none of which gives a different number for \<^verbatim>\<open>-0\<close>, and the store
  receives both as \<^verbatim>\<open>0\<close>. At run time such a field can also hold \<^verbatim>\<open>null\<close>, which is
  what a row read from the store carries where the store holds no number.

  A field that holds a count (the stock of a product, the quantity of an item) is kept
  as an exact number: the views change counts in steps of one, and sums and differences
  of whole numbers are exact in doubles up to \<open>2 ^ 53\<close>.
\<close>

datatype number = Num rat | PosInf | NegInf | NaN | Null

type_synonym count = rat

definition pow2 :: "int \<Rightarrow> rat" where
  "pow2 k = (if 0 \<le> k then 2 ^ nat k else 1 / 2 ^ nat (- k))"

text \<open>The binary exponent of a rational other than zero: \<open>2 ^ e \<le> \<bar>x\<bar> < 2 ^ (e + 1)\<close>.\<close>

definition expo :: "rat \<Rightarrow> int" where
  "expo x = (case quotient_of \<bar>x\<bar> of (p, q) \<Rightarrow>
      let e0 = bitlen p - bitlen q in if pow2 e0 \<le> \<bar>x\<bar> then e0 else e0 - 1)"

text \<open>The nearest integer, the even one of the two at a tie.\<close>

definition rne :: "rat \<Rightarrow> int" where
  "rne y = (let f = \<lfloor>y\<rfloor>; r = y - of_int f
            in if r < 1 / 2 then f else if 1 / 2 < r then f + 1
               else if even f then f else f + 1)"

text \<open>
  The double nearest to a rational: 53 bits of significand, the least exponent of a unit
  in the last place \<open>-1074\<close>, and an infinity from \<open>2 ^ 1024\<close> on. This is also the value
  of a decimal literal of the language.
\<close>

definition fl :: "rat \<Rightarrow> number" where
  "fl x = (if x = 0 then Num 0
           else let k = max (expo x - 52) (- 1074);
                    v = of_int (rne (\<bar>x\<bar> / pow2 k)) * pow2 k
                in if 2 ^ 1024 \<le> v then (if 0 < x then PosInf else NegInf)
                   else Num (sgn x * v))"

text \<open>\<^verbatim>\<open>ToNumber\<close>, on the values a number field can hold: \<^verbatim>\<open>null\<close> counts as \<open>0\<close>.\<close>

fun toNumber :: "number \<Rightarrow> number" where
  "toNumber Null = Num 0"
| "toNumber x = x"

fun negate :: "number \<Rightarrow> number" where
  "negate (Num x) = Num (- x)"
| "negate PosInf = NegInf"
| "negate NegInf = PosInf"
| "negate NaN = NaN"
| "negate Null = Num 0"

text \<open>The sum of two doubles.\<close>

fun add :: "number \<Rightarrow> number \<Rightarrow> number" where
  "add (Num x) (Num y) = fl (x + y)"
| "add NaN _ = NaN"
| "add _ NaN = NaN"
| "add PosInf NegInf = NaN"
| "add NegInf PosInf = NaN"
| "add PosInf _ = PosInf"
| "add _ PosInf = PosInf"
| "add NegInf _ = NegInf"
| "add _ NegInf = NegInf"
| "add x y = NaN"

text \<open>The operators \<^verbatim>\<open>a + b\<close> and \<^verbatim>\<open>a - b\<close> on number fields, and \<^verbatim>\<open>Math.max(a, b)\<close>.\<close>

definition jplus :: "number \<Rightarrow> number \<Rightarrow> number" where
  "jplus a b = add (toNumber a) (toNumber b)"

definition jminus :: "number \<Rightarrow> number \<Rightarrow> number" where
  "jminus a b = add (toNumber a) (negate (toNumber b))"

fun larger :: "number \<Rightarrow> number \<Rightarrow> number" where
  "larger NaN _ = NaN"
| "larger _ NaN = NaN"
| "larger PosInf _ = PosInf"
| "larger _ PosInf = PosInf"
| "larger NegInf y = y"
| "larger x NegInf = x"
| "larger (Num x) (Num y) = Num (max x y)"
| "larger x y = NaN"

definition jmax :: "number \<Rightarrow> number \<Rightarrow> number" where
  "jmax a b = larger (toNumber a) (toNumber b)"

text \<open>
  What \<^verbatim>\<open>JSON.stringify\<close> makes of a number in the body of a request, and so what the
  store receives: \<^verbatim>\<open>NaN\<close> and the infinities become \<^verbatim>\<open>null\<close>.
\<close>

fun toJSON :: "number \<Rightarrow> number" where
  "toJSON (Num x) = Num x"
| "toJSON _ = Null"

text \<open>
  A field declared with \<^verbatim>\<open>?\<close>, in an object of the program: the key can be missing,
  and a row read from the store carries \<^verbatim>\<open>null\<close> where the column is empty.
\<close>

datatype 'a optional = Undefined | NullValue | Value 'a

subsection \<open>Data model (\<^verbatim>\<open>types.ts\<close>)\<close>

record Product =
  prod_id :: string
  prod_name :: string
  priceRetail :: number
  priceWholesale :: number
  cost :: number
  stock :: count
  category :: string
  prod_image :: "string optional"

record Client =
  client_id :: string
  client_name :: string
  businessName :: string
  debt :: number
  creditLimit :: number
  address :: string

record CartItem = Product +
  cart_quantity :: count

record SuspendedSale =
  susp_id :: string
  customerName :: string
  susp_items :: "CartItem list"
  susp_date :: string
  susp_total :: number

datatype SaleType = pos | dispatch

record SaleItem =
  productId :: string
  productName :: string
  quantity :: count
  unitPrice :: number
  subtotal :: number

record Sale =
  sale_id :: string
  date :: string
  sale_type :: SaleType
  items :: "SaleItem list"
  totalAmount :: number
  clientId :: "string optional"
  clientName :: "string optional"
  sellerId :: string

subsection \<open>The remote store\<close>

text \<open>The four tables the engine reads and writes.\<close>

record db =
  products :: "Product list"
  clients :: "Client list"
  sales :: "Sale list"
  suspended_sales :: "SuspendedSale list"

text \<open>
  What a call throws: \<^verbatim>\<open>new Error(msg)\<close>, or the error object the store returned.
\<close>

datatype error = Error string | PostgrestError

text \<open>
  A call returns its outcome together with the store as the call left it, so that a
  write made before a throw stays visible.
\<close>

type_synonym 'a outcome = "(error + 'a) \<times> db"

text \<open>
  What the two sources of fresh values give to one call: \<^verbatim>\<open>crypto.randomUUID()\<close> and
  \<^verbatim>\<open>new Date().toISOString()\<close>.
\<close>

record env =
  uuid :: string
  now :: string

text \<open>The query builder: \<^verbatim>\<open>.eq(col, v)\<close>, \<^verbatim>\<open>.single()\<close>, \<^verbatim>\<open>.update(..).eq(col, v)\<close>,
  \<^verbatim>\<open>.delete().eq(col, v)\<close> and \<^verbatim>\<open>.order(col, { ascending: false })\<close>.\<close>

definition eq_rows :: "('r \<Rightarrow> 'k) \<Rightarrow> 'k \<Rightarrow> 'r list \<Rightarrow> 'r list" where
  "eq_rows col v rows = filter (\<lambda>r. col r = v) rows"

text \<open>\<^verbatim>\<open>.single()\<close> gives the row when exactly one row is selected, and no data otherwise.\<close>

fun single :: "'r list \<Rightarrow> 'r option" where
  "single [r] = Some r"
| "single _ = None"

definition update_eq :: "('r \<Rightarrow> 'k) \<Rightarrow> 'k \<Rightarrow> ('r \<Rightarrow> 'r) \<Rightarrow> 'r list \<Rightarrow> 'r list" where
  "update_eq col v f rows = map (\<lambda>r. if col r = v then f r else r) rows"

definition delete_eq :: "('r \<Rightarrow> 'k) \<Rightarrow> 'k \<Rightarrow> 'r list \<Rightarrow> 'r list" where
  "delete_eq col v rows = filter (\<lambda>r. col r \<noteq> v) rows"

text \<open>
  Modelled from the spec: the schema of the tables is not in the repository. The data
  model makes the id of a sale and of a suspended sale unique, so an insert under an id
  that the table holds is refused with an error and leaves the table as it was; any
  other insert appends the row. No other constraint is modelled: a column takes
  \<^verbatim>\<open>null\<close>, a column that a request does not name is left empty by an insert and
  untouched by an update, and a number that was stored is read back as it was sent.
\<close>

definition insert_row :: "('r \<Rightarrow> string) \<Rightarrow> 'r \<Rightarrow> 'r list \<Rightarrow> error option \<times> 'r list" where
  "insert_row key r rows =
     (if key r \<in> set (map key rows) then (Some PostgrestError, rows) else (None, rows @ [r]))"

fun insert_desc :: "('r \<Rightarrow> 'k::linorder) \<Rightarrow> 'r \<Rightarrow> 'r list \<Rightarrow> 'r list" where
  "insert_desc col r [] = [r]"
| "insert_desc col r (x # xs) =
     (if col x \<le> col r then r # x # xs else x # insert_desc col r xs)"

definition order_desc :: "('r \<Rightarrow> 'k::linorder) \<Rightarrow> 'r list \<Rightarrow> 'r list" where
  "order_desc col rows = foldr (insert_desc col) rows []"

text \<open>
  The rows that the bodies of the requests describe. In the body of an insert the
  numbers are as \<^verbatim>\<open>JSON.stringify\<close> writes them and a missing key leaves its column
  empty. The body of an update names the columns to write: every key that the object
  has, so a missing key leaves the stored value.
\<close>

definition itemJSON :: "SaleItem \<Rightarrow> SaleItem" where
  "itemJSON i = i\<lparr>unitPrice := toJSON (unitPrice i), subtotal := toJSON (subtotal i)\<rparr>"

fun column :: "'a optional \<Rightarrow> 'a optional" where
  "column Undefined = NullValue"
| "column v = v"

definition saleRow :: "Sale \<Rightarrow> Sale" where
  "saleRow s =
     s\<lparr>items := map itemJSON (items s), totalAmount := toJSON (totalAmount s),
       clientId := column (clientId s), clientName := column (clientName s)\<rparr>"

fun written :: "'a optional \<Rightarrow> 'a optional \<Rightarrow> 'a optional" where
  "written Undefined stored = stored"
| "written v stored = v"

definition patchSale :: "Sale \<Rightarrow> Sale \<Rightarrow> Sale" where
  "patchSale u row =
     row\<lparr>sale_id := sale_id u, date := date u, sale_type := sale_type u,
         items := map itemJSON (items u), totalAmount := toJSON (totalAmount u),
         clientId := written (clientId u) (clientId row),
         clientName := written (clientName u) (clientName row),
         sellerId := sellerId u\<rparr>"

definition cartItemJSON :: "CartItem \<Rightarrow> CartItem" where
  "cartItemJSON c =
     c\<lparr>priceRetail := toJSON (priceRetail c), priceWholesale := toJSON (priceWholesale c),
       cost := toJSON (cost c), prod_image := column (prod_image c)\<rparr>"

definition suspendedRow :: "SuspendedSale \<Rightarrow> SuspendedSale" where
  "suspendedRow s =
     s\<lparr>susp_items := map cartItemJSON (susp_items s), susp_total := toJSON (susp_total s)\<rparr>"

subsection \<open>\<^verbatim>\<open>DBService\<close>\<close>

text \<open>
  The two single-row reads: \<^verbatim>\<open>from('products').select(..).eq('id', productId).single()\<close>
  and \<^verbatim>\<open>from('clients').select(..).eq('id', clientId).single()\<close>.
\<close>

definition selectProduct :: "string \<Rightarrow> db \<Rightarrow> Product option" where
  "selectProduct pid d = single (eq_rows prod_id pid (products d))"

definition selectClient :: "string \<Rightarrow> db \<Rightarrow> Client option" where
  "selectClient cid d = single (eq_rows client_id cid (clients d))"

definition generateId :: "env \<Rightarrow> string" where
  "generateId e = uuid e"

definition registerClientPayment :: "string \<Rightarrow> number \<Rightarrow> db \<Rightarrow> unit outcome" where
  "registerClientPayment cid amount d =
     (case selectClient cid d of
        None \<Rightarrow> (Inl (Error ''Cliente no encontrado''), d)
      | Some client \<Rightarrow>
          let newDebt = jmax (Num 0) (jminus (debt client) amount)
          in (Inr (),
              d\<lparr>clients := update_eq client_id cid (\<lambda>c. c\<lparr>debt := toJSON newDebt\<rparr>) (clients d)\<rparr>))"

definition getSuspendedSales :: "db \<Rightarrow> SuspendedSale list" where
  "getSuspendedSales d = suspended_sales d"

text \<open>The error of the insert is not looked at.\<close>

definition addSuspendedSale :: "SuspendedSale \<Rightarrow> db \<Rightarrow> db" where
  "addSuspendedSale s d =
     d\<lparr>suspended_sales := snd (insert_row susp_id (suspendedRow s) (suspended_sales d))\<rparr>"

definition removeSuspendedSale :: "string \<Rightarrow> db \<Rightarrow> db" where
  "removeSuspendedSale i d = d\<lparr>suspended_sales := delete_eq susp_id i (suspended_sales d)\<rparr>"

definition getSales :: "db \<Rightarrow> Sale list" where
  "getSales d = order_desc date (sales d)"

text \<open>
  \<^verbatim>\<open>update(updatedSale).eq('id', updatedSale.id)\<close> writes every column that the sale it
  is given has a key for into the rows under that id; an update that matches no row is
  not an error.
\<close>

definition updateSale :: "Sale \<Rightarrow> db \<Rightarrow> unit outcome" where
  "updateSale updatedSale d =
     (Inr (), d\<lparr>sales := update_eq sale_id (sale_id updatedSale) (patchSale updatedSale) (sales d)\<rparr>)"

definition decrementStock :: "string \<Rightarrow> count \<Rightarrow> db \<Rightarrow> db" where
  "decrementStock pid qty d =
     (case selectProduct pid d of
        Some prd \<Rightarrow>
          d\<lparr>products := update_eq prod_id pid (\<lambda>p. p\<lparr>stock := stock prd - qty\<rparr>) (products d)\<rparr>
      | None \<Rightarrow> d)"

text \<open>\<^verbatim>\<open>items.reduce((sum, item) => sum + item.subtotal, 0)\<close>\<close>

definition sumSubtotals :: "SaleItem list \<Rightarrow> number" where
  "sumSubtotals its = foldl (\<lambda>sum item. jplus sum (subtotal item)) (Num 0) its"

text \<open>\<^verbatim>\<open>for (const item of items) await this.decrementStock(item.productId, item.quantity)\<close>\<close>

definition decrementItems :: "SaleItem list \<Rightarrow> db \<Rightarrow> db" where
  "decrementItems its d = fold (\<lambda>item. decrementStock (productId item) (quantity item)) its d"

definition createRetailSale :: "env \<Rightarrow> SaleItem list \<Rightarrow> string \<Rightarrow> db \<Rightarrow> unit outcome" where
  "createRetailSale e its seller d =
     (let saleId = generateId e;
          total = sumSubtotals its;
          sale = \<lparr>sale_id = saleId, date = now e, sale_type = pos, items = its,
                  totalAmount = total, clientId = Undefined, clientName = Undefined,
                  sellerId = seller\<rparr>
      in case insert_row sale_id (saleRow sale) (sales d) of
           (Some saleError, _) \<Rightarrow> (Inl saleError, d)
         | (None, tbl) \<Rightarrow> (Inr (), decrementItems its (d\<lparr>sales := tbl\<rparr>)))"

definition createDispatchSale ::
  "env \<Rightarrow> string \<Rightarrow> SaleItem list \<Rightarrow> string \<Rightarrow> db \<Rightarrow> unit outcome" where
  "createDispatchSale e cid its seller d =
     (let saleId = generateId e;
          total = sumSubtotals its
      in case selectClient cid d of
           None \<Rightarrow> (Inl (Error ''Cliente no existe''), d)
         | Some client \<Rightarrow>
             let sale = \<lparr>sale_id = saleId, date = now e, sale_type = dispatch, items = its,
                         totalAmount = total, clientId = Value cid,
                         clientName = Value (if businessName client = [] then client_name client
                                             else businessName client),
                         sellerId = seller\<rparr>
             in (case insert_row sale_id (saleRow sale) (sales d) of
                   (Some saleError, _) \<Rightarrow> (Inl saleError, d)
                 | (None, tbl) \<Rightarrow>
                     (Inr (),
                      decrementItems its
                        (d\<lparr>sales := tbl,
                           clients := update_eq client_id cid
                                        (\<lambda>c. c\<lparr>debt := toJSON (jplus (debt client) total)\<rparr>)
                                        (clients d)\<rparr>))))"

subsection \<open>The handlers of the views\<close>

text \<open>
  \<^verbatim>\<open>handleResumeSale(suspended)\<close> of the seller view. The state it touches is the cart
  and the store; \<open>confirmed\<close> is the answer to the dialog that is shown when the cart
  holds items.
\<close>

definition handleResumeSale ::
  "bool \<Rightarrow> SuspendedSale \<Rightarrow> CartItem list \<times> db \<Rightarrow> CartItem list \<times> db" where
  "handleResumeSale confirmed suspended st =
     (case st of (cart, d) \<Rightarrow>
        if length cart > 0 \<and> \<not> confirmed then (cart, d)
        else (susp_items suspended, removeSuspendedSale (susp_id suspended) d))"

text \<open>\<^verbatim>\<open>saveEditedSale\<close> of the admin view, over the selected sale and the edited items.\<close>

definition saveEditedSale :: "Sale option \<Rightarrow> SaleItem list \<Rightarrow> db \<Rightarrow> unit outcome" where
  "saveEditedSale selectedSale editItems d =
     (case selectedSale of
        None \<Rightarrow> (Inr (), d)
      | Some sel \<Rightarrow>
          let filteredItems = filter (\<lambda>i. quantity i > 0) editItems;
              newTotal = foldl (\<lambda>acc curr. jplus acc (subtotal curr)) (Num 0) filteredItems;
              updatedSale = sel\<lparr>items := filteredItems, totalAmount := newTotal\<rparr>
          in updateSale updatedSale d)"

subsection \<open>Observations\<close>

text \<open>The stock of a product and the debt of a client, as the single-row reads see them.\<close>

definition stockOf :: "string \<Rightarrow> db \<Rightarrow> count option" where
  "stockOf pid d = map_option stock (selectProduct pid d)"

definition debtOf :: "string \<Rightarrow> db \<Rightarrow> number option" where
  "debtOf cid d = map_option debt (selectClient cid d)"

text \<open>The quantity an item list asks of one product: the items that name it, added up.\<close>

definition requested :: "string \<Rightarrow> SaleItem list \<Rightarrow> count" where
  "requested pid its = sum_list (map quantity (filter (\<lambda>i. productId i = pid) its))"

text \<open>A number below zero.\<close>

fun negative :: "number \<Rightarrow> bool" where
  "negative (Num x) = (x < 0)"
| "negative NegInf = True"
| "negative _ = False"

text \<open>A rational that is a double: rounding leaves it as it is.\<close>

definition representable :: "rat \<Rightarrow> bool" where
  "representable x = (fl x = Num x)"

text \<open>
  Starting from \<open>a\<close>, the numbers of a list are added one after the other without
  any rounding: every running sum is a double.
\<close>

fun exactSums :: "rat \<Rightarrow> rat list \<Rightarrow> bool" where
  "exactSums a [] = True"
| "exactSums a (x # xs) = (representable (a + x) \<and> exactSums (a + x) xs)"

subsection \<open>Sample data\<close>

text \<open>
  Rows and a store for the worked examples: the figures are those of the spec's tests,
  each number the double that its decimal literal denotes.
\<close>

definition ex_product :: "string \<Rightarrow> count \<Rightarrow> Product" where
  "ex_product i s =
     \<lparr>prod_id = i, prod_name = ''Pan'', priceRetail = fl 1, priceWholesale = fl 1, cost = fl 0,
      stock = s, category = ''Panes'', prod_image = NullValue\<rparr>"

definition ex_client :: "string \<Rightarrow> string \<Rightarrow> string \<Rightarrow> rat \<Rightarrow> Client" where
  "ex_client i n b owed =
     \<lparr>client_id = i, client_name = n, businessName = b, debt = fl owed, creditLimit = fl 100,
      address = ''Calle 1''\<rparr>"

definition ex_item :: "string \<Rightarrow> count \<Rightarrow> rat \<Rightarrow> SaleItem" where
  "ex_item p q price =
     \<lparr>productId = p, productName = ''Pan'', quantity = q, unitPrice = fl price,
      subtotal = fl (q * price)\<rparr>"

definition ex_env :: "string \<Rightarrow> env" where
  "ex_env u = \<lparr>uuid = u, now = ''2024-05-01T10:00:00.000Z''\<rparr>"

definition ex_cart_item :: "string \<Rightarrow> count \<Rightarrow> CartItem" where
  "ex_cart_item i q =
     \<lparr>prod_id = i, prod_name = ''Pan'', priceRetail = fl 5, priceWholesale = fl 4, cost = fl 2,
      stock = 10, category = ''Panes'', prod_image = NullValue, cart_quantity = q\<rparr>"

definition ex_suspended :: SuspendedSale where
  "ex_suspended =
     \<lparr>susp_id = ''1714557600000'', customerName = ''Walk-in A'',
      susp_items = [ex_cart_item ''P'' 3], susp_date = ''2024-05-01T10:00:00.000Z'',
      susp_total = fl 15\<rparr>"

definition ex_sale :: Sale where
  "ex_sale =
     \<lparr>sale_id = ''s1'', date = ''2024-05-01T10:00:00.000Z'', sale_type = pos,
      items = [ex_item ''P'' 4 1], totalAmount = fl 4, clientId = NullValue,
      clientName = NullValue, sellerId = ''S''\<rparr>"

definition ex_sale2 :: Sale where
  "ex_sale2 =
     \<lparr>sale_id = ''s2'', date = ''2024-05-02T09:30:00.000Z'', sale_type = dispatch,
      items = [ex_item ''Q'' 2 5], totalAmount = fl 10, clientId = Value ''C'',
      clientName = Value ''Bodega'', sellerId = ''S''\<rparr>"

definition ex_db :: db where
  "ex_db =
     \<lparr>products = [ex_product ''P'' 10, ex_product ''Q'' 5],
      clients = [ex_client ''C'' ''Ana'' ''Bodega'' 20, ex_client ''D'' ''Luis'' [] 70],
      sales = [],
      suspended_sales = []\<rparr>"

section \<open>Properties\<close>

subsection \<open>Numbers\<close>

lemma rne_of_int: "rne (of_int m) = m"
  by (simp add: rne_def)

lemma bitlen_bound:
  assumes "0 < n" and "n < 2 ^ 53"
  shows "1 \<le> bitlen n \<and> bitlen n \<le> 53"
proof -
  have "bitlen n \<le> 53"
    using assms bitlen_le_iff_power [of n 53] by simp
  moreover have "0 < bitlen n"
  proof (rule ccontr)
    assume "\<not> 0 < bitlen n"
    then have "nat (bitlen n) = 0" by simp
    with bitlen_bounds [OF assms(1)] have "n < 1" by simp
    with assms(1) show False by simp
  qed
  ultimately show ?thesis by simp
qed

text \<open>A whole number below \<open>2 ^ 53\<close> in size is a double: rounding leaves it as it is.\<close>

lemma fl_int:
  assumes int: "x \<in> \<int>" and small: "\<bar>x\<bar> < 2 ^ 53"
  shows "fl x = Num x"
proof (cases "x = 0")
  case True
  then show ?thesis by (simp add: fl_def)
next
  case False
  from int obtain n where n: "\<bar>x\<bar> = of_int n"
    by (metis Ints_abs Ints_cases)
  have npos: "0 < n"
  proof -
    have "0 < \<bar>x\<bar>" using False by simp
    then have "0 < (of_int n :: rat)" by (simp only: n)
    then show ?thesis by simp
  qed
  have nsmall: "n < 2 ^ 53" using small n by (metis of_int_less_numeral_power_cancel_iff)
  have q: "quotient_of \<bar>x\<bar> = (n, 1)" by (simp add: n)
  let ?e0 = "bitlen n - 1"
  have e0: "0 \<le> ?e0 \<and> ?e0 \<le> 52" using bitlen_bound [OF npos nsmall] by simp
  define k where "k = max (expo x - 52) (- 1074)"
  have b1: "bitlen 1 = 1"
    by (simp add: bitlen_def floorlog_def)
  have ex: "expo x = ?e0 \<or> expo x = ?e0 - 1"
    by (simp add: expo_def q Let_def b1)
  then have kb: "- 53 \<le> k \<and> k \<le> 0"
    using e0 by (auto simp: k_def)
  define j where "j = nat (- k)"
  have p: "pow2 k = 1 / 2 ^ j"
    using kb by (cases "k = 0") (simp_all add: pow2_def j_def)
  have d: "\<bar>x\<bar> / pow2 k = of_int (n * 2 ^ j)"
    by (simp add: p n)
  have v: "of_int (rne (\<bar>x\<bar> / pow2 k)) * pow2 k = \<bar>x\<bar>"
    unfolding d rne_of_int by (simp add: p n)
  have big: "\<not> (2 ^ 1024 \<le> \<bar>x\<bar>)"
  proof -
    have "(2::rat) ^ 53 \<le> 2 ^ 1024" by (rule power_increasing) simp_all
    with small show ?thesis by linarith
  qed
  have "sgn x * \<bar>x\<bar> = x" by (simp add: sgn_mult_abs)
  then show ?thesis
    using False big v by (simp add: fl_def Let_def k_def [symmetric])
qed

lemma representable_int: "x \<in> \<int> \<Longrightarrow> \<bar>x\<bar> < 2 ^ 53 \<Longrightarrow> representable x"
  by (simp add: representable_def fl_int)

text \<open>
  The rounding at work, on the doubles that the literals \<^verbatim>\<open>0.1\<close>, \<^verbatim>\<open>0.2\<close>,
  \<^verbatim>\<open>21.59\<close> and \<^verbatim>\<open>1.59\<close> denote: \<^verbatim>\<open>0.1 + 0.2\<close> is \<^verbatim>\<open>0.30000000000000004\<close>,
  \<^verbatim>\<open>21.59 - 1.59\<close> is \<^verbatim>\<open>20\<close>, and \<open>2 ^ 53 + 1\<close> is \<open>2 ^ 53\<close>.
\<close>

lemma literal_tenth: "fl (1 / 10) = Num (3602879701896397 / 36028797018963968)"
  by code_simp

lemma tenth_plus_fifth:
  "jplus (Num (3602879701896397 / 36028797018963968)) (Num (3602879701896397 / 18014398509481984))
     = Num (1351079888211149 / 4503599627370496)"
  by code_simp

lemma payment_rounds:
  "jminus (Num (6077044747183063 / 281474976710656)) (Num (7160723407519089 / 4503599627370496))
     = Num 20"
  by code_simp

lemma large_plus_one: "jplus (Num (2 ^ 53)) (Num 1) = Num (2 ^ 53)"
  by code_simp

lemma jplus_Num: "jplus (Num a) (Num b) = fl (a + b)"
  by (simp add: jplus_def)

lemma jminus_Num: "jminus (Num a) (Num b) = fl (a - b)"
  by (simp add: jminus_def)

lemma jmax_Num: "jmax (Num a) (Num b) = Num (max a b)"
  by (simp add: jmax_def)

lemma not_negative_stored_jmax: "\<not> negative (toJSON (jmax (Num 0) x))"
  by (cases x) (simp_all add: jmax_def)

lemma foldl_jplus_exact:
  "exactSums a rs \<Longrightarrow> foldl jplus (Num a) (map Num rs) = Num (a + sum_list rs)"
  by (induction rs arbitrary: a) (simp_all add: jplus_Num representable_def add.assoc)

lemma sumSubtotals_fold:
  "foldl (\<lambda>sum item. jplus sum (subtotal item)) a its = foldl jplus a (map subtotal its)"
  by (simp add: foldl_map)

lemma subtotals_exact:
  assumes "map subtotal its = map Num rs" and "exactSums 0 rs"
  shows "foldl (\<lambda>sum item. jplus sum (subtotal item)) (Num 0) its = Num (sum_list rs)"
  using foldl_jplus_exact [OF assms(2)] assms(1) by (simp add: sumSubtotals_fold)

subsection \<open>The query builder\<close>

lemma single_Some_iff: "single xs = Some r \<longleftrightarrow> xs = [r]"
  by (cases xs rule: single.cases) auto

lemma eq_rows_update_eq:
  assumes "\<And>r. col (f r) = col r"
  shows "eq_rows col k (update_eq col v f rows) =
         (if k = v then map f (eq_rows col k rows) else eq_rows col k rows)"
  using assms by (induction rows) (auto simp: eq_rows_def update_eq_def)

lemma single_map: "single (map f xs) = map_option f (single xs)"
  by (cases xs rule: single.cases) auto

lemma decrementStock_frame:
  "clients (decrementStock pid q d) = clients d"
  "sales (decrementStock pid q d) = sales d"
  "suspended_sales (decrementStock pid q d) = suspended_sales d"
  by (simp_all add: decrementStock_def split: option.splits)

lemma decrementItems_frame:
  "clients (decrementItems its d) = clients d"
  "sales (decrementItems its d) = sales d"
  "suspended_sales (decrementItems its d) = suspended_sales d"
  by (induction its arbitrary: d) (simp_all add: decrementItems_def decrementStock_frame)

lemma selectProduct_decrementStock:
  "selectProduct p (decrementStock pid q d) =
     (if p = pid then map_option (\<lambda>r. r\<lparr>stock := stock r - q\<rparr>) (selectProduct p d)
      else selectProduct p d)"
proof (cases "selectProduct pid d")
  case None
  then show ?thesis by (simp add: decrementStock_def)
next
  case (Some prd)
  then have rows: "eq_rows prod_id pid (products d) = [prd]"
    by (simp add: selectProduct_def single_Some_iff)
  show ?thesis
    using Some rows
    by (simp add: decrementStock_def selectProduct_def eq_rows_update_eq single_map)
qed

lemma requested_Cons:
  "requested p (i # its) = (if productId i = p then quantity i else 0) + requested p its"
  by (simp add: requested_def)

lemma selectProduct_decrementItems:
  "selectProduct p (decrementItems its d) =
     map_option (\<lambda>r. r\<lparr>stock := stock r - requested p its\<rparr>) (selectProduct p d)"
proof (induction its arbitrary: d)
  case Nil
  show ?case by (simp add: decrementItems_def requested_def option.map_ident)
next
  case (Cons i its)
  have step: "decrementItems (i # its) d = decrementItems its (decrementStock (productId i) (quantity i) d)"
    by (simp add: decrementItems_def)
  show ?case
    unfolding step Cons.IH
    by (cases "selectProduct p d")
       (auto simp: selectProduct_decrementStock requested_Cons diff_diff_eq)
qed

lemma stockOf_decrementItems:
  "stockOf p (decrementItems its d) = map_option (\<lambda>s. s - requested p its) (stockOf p d)"
  by (simp add: stockOf_def selectProduct_decrementItems option.map_comp comp_def)



lemma selectClient_update:
  assumes "\<And>r. client_id (f r) = client_id r"
  shows "selectClient k (d\<lparr>clients := update_eq client_id cid f (clients d)\<rparr>) =
         (if k = cid then map_option f (selectClient k d) else selectClient k d)"
  using assms by (simp add: selectClient_def eq_rows_update_eq single_map)

lemma selectClient_cong: "clients d' = clients d \<Longrightarrow> selectClient k d' = selectClient k d"
  by (simp add: selectClient_def)

lemma stockOf_cong: "products d' = products d \<Longrightarrow> stockOf p d' = stockOf p d"
  by (simp add: stockOf_def selectProduct_def)

subsection \<open>The calls, case by case\<close>

lemma createRetailSale_fresh:
  assumes "generateId e \<notin> sale_id ` set (sales d)"
  shows "createRetailSale e its seller d =
         (Inr (), decrementItems its (d\<lparr>sales := sales d @
            [\<lparr>sale_id = generateId e, date = now e, sale_type = pos, items = map itemJSON its,
              totalAmount = toJSON (foldl (\<lambda>sum item. jplus sum (subtotal item)) (Num 0) its),
              clientId = NullValue, clientName = NullValue, sellerId = seller\<rparr>]\<rparr>))"
  using assms by (simp add: createRetailSale_def Let_def insert_row_def saleRow_def sumSubtotals_def)

lemma createRetailSale_taken:
  assumes "generateId e \<in> sale_id ` set (sales d)"
  shows "createRetailSale e its seller d = (Inl PostgrestError, d)"
  using assms by (simp add: createRetailSale_def Let_def insert_row_def saleRow_def)

lemma createRetailSale_sales:
  assumes "generateId e \<notin> sale_id ` set (sales d)"
  shows "sales (snd (createRetailSale e its seller d)) = sales d @
            [\<lparr>sale_id = generateId e, date = now e, sale_type = pos, items = map itemJSON its,
              totalAmount = toJSON (foldl (\<lambda>sum item. jplus sum (subtotal item)) (Num 0) its),
              clientId = NullValue, clientName = NullValue, sellerId = seller\<rparr>]"
  by (simp add: createRetailSale_fresh [OF assms] decrementItems_frame)

lemma createRetailSale_stock:
  assumes "generateId e \<notin> sale_id ` set (sales d)"
  shows "stockOf p (snd (createRetailSale e its seller d)) =
         map_option (\<lambda>s. s - requested p its) (stockOf p d)"
  by (simp add: createRetailSale_fresh [OF assms] stockOf_decrementItems)
     (simp add: stockOf_def selectProduct_def)

lemma createRetailSale_failed:
  "fst (createRetailSale e its seller d) = Inl err \<Longrightarrow> snd (createRetailSale e its seller d) = d"
  by (cases "generateId e \<in> sale_id ` set (sales d)")
     (simp_all add: createRetailSale_taken createRetailSale_fresh)

lemma createDispatchSale_found:
  assumes "selectClient cid d = Some c" and "generateId e \<notin> sale_id ` set (sales d)"
  shows "createDispatchSale e cid its seller d =
         (Inr (), decrementItems its
            (d\<lparr>sales := sales d @
                 [\<lparr>sale_id = generateId e, date = now e, sale_type = dispatch,
                   items = map itemJSON its,
                   totalAmount = toJSON (foldl (\<lambda>sum item. jplus sum (subtotal item)) (Num 0) its),
                   clientId = Value cid,
                   clientName = Value (if businessName c = [] then client_name c
                                       else businessName c),
                   sellerId = seller\<rparr>],
               clients := update_eq client_id cid
                 (\<lambda>r. r\<lparr>debt := toJSON (jplus (debt c)
                     (foldl (\<lambda>sum item. jplus sum (subtotal item)) (Num 0) its))\<rparr>)
                 (clients d)\<rparr>))"
  using assms
  by (simp add: createDispatchSale_def Let_def insert_row_def saleRow_def sumSubtotals_def)

lemma createDispatchSale_missing:
  assumes "selectClient cid d = None"
  shows "createDispatchSale e cid its seller d = (Inl (Error ''Cliente no existe''), d)"
  using assms by (simp add: createDispatchSale_def Let_def)

lemma createDispatchSale_taken:
  assumes "selectClient cid d = Some c" and "generateId e \<in> sale_id ` set (sales d)"
  shows "createDispatchSale e cid its seller d = (Inl PostgrestError, d)"
  using assms by (simp add: createDispatchSale_def Let_def insert_row_def saleRow_def)

lemma createDispatchSale_failed:
  "fst (createDispatchSale e cid its seller d) = Inl err \<Longrightarrow>
   snd (createDispatchSale e cid its seller d) = d"
proof (cases "selectClient cid d")
  case None
  then show ?thesis by (simp add: createDispatchSale_missing)
next
  case (Some c)
  assume failed: "fst (createDispatchSale e cid its seller d) = Inl err"
  show ?thesis
  proof (cases "generateId e \<in> sale_id ` set (sales d)")
    case True
    then show ?thesis by (simp add: createDispatchSale_taken [OF Some])
  next
    case False
    with failed show ?thesis by (simp add: createDispatchSale_found [OF Some])
  qed
qed

lemma createDispatchSale_sales:
  assumes "selectClient cid d = Some c" and "generateId e \<notin> sale_id ` set (sales d)"
  shows "sales (snd (createDispatchSale e cid its seller d)) = sales d @
            [\<lparr>sale_id = generateId e, date = now e, sale_type = dispatch,
              items = map itemJSON its,
              totalAmount = toJSON (foldl (\<lambda>sum item. jplus sum (subtotal item)) (Num 0) its),
              clientId = Value cid,
              clientName = Value (if businessName c = [] then client_name c else businessName c),
              sellerId = seller\<rparr>]"
  by (simp add: createDispatchSale_found [OF assms] decrementItems_frame)

lemma createDispatchSale_clients:
  assumes client: "selectClient cid d = Some c"
    and fresh: "generateId e \<notin> sale_id ` set (sales d)"
  shows "selectClient k (snd (createDispatchSale e cid its seller d)) =
         (if k = cid
          then Some (c\<lparr>debt := toJSON (jplus (debt c)
                 (foldl (\<lambda>sum item. jplus sum (subtotal item)) (Num 0) its))\<rparr>)
          else selectClient k d)"
proof -
  let ?f = "\<lambda>r. r\<lparr>debt := toJSON (jplus (debt c)
              (foldl (\<lambda>sum item. jplus sum (subtotal item)) (Num 0) its))\<rparr>"
  have cl: "clients (snd (createDispatchSale e cid its seller d)) =
            clients (d\<lparr>clients := update_eq client_id cid ?f (clients d)\<rparr>)"
    by (simp add: createDispatchSale_found [OF client fresh] decrementItems_frame)
  have "selectClient k (d\<lparr>clients := update_eq client_id cid ?f (clients d)\<rparr>) =
        (if k = cid then map_option ?f (selectClient k d) else selectClient k d)"
    by (rule selectClient_update) simp
  then show ?thesis
    unfolding selectClient_cong [OF cl] using client by simp
qed



lemma registerClientPayment_found:
  assumes "selectClient cid d = Some c"
  shows "registerClientPayment cid amount d =
         (Inr (), d\<lparr>clients := update_eq client_id cid
                       (\<lambda>r. r\<lparr>debt := toJSON (jmax (Num 0) (jminus (debt c) amount))\<rparr>)
                       (clients d)\<rparr>)"
  using assms by (simp add: registerClientPayment_def Let_def)

lemma registerClientPayment_missing:
  assumes "selectClient cid d = None"
  shows "registerClientPayment cid amount d = (Inl (Error ''Cliente no encontrado''), d)"
  using assms by (simp add: registerClientPayment_def)

lemma registerClientPayment_failed:
  "fst (registerClientPayment cid amount d) = Inl err \<Longrightarrow>
   snd (registerClientPayment cid amount d) = d"
  by (cases "selectClient cid d")
     (simp_all add: registerClientPayment_missing registerClientPayment_found)

subsection \<open>Evaluation of the examples\<close>

lemmas ex_defs = ex_db_def ex_env_def ex_item_def ex_client_def ex_product_def
lemmas query_defs = selectProduct_def selectClient_def stockOf_def debtOf_def eq_rows_def
  update_eq_def delete_eq_def insert_row_def generateId_def requested_def
lemmas op_defs = createRetailSale_def createDispatchSale_def registerClientPayment_def
  decrementItems_def decrementStock_def sumSubtotals_def Let_def
lemmas num_defs = jplus_def jminus_def jmax_def fl_int saleRow_def itemJSON_def

subsection \<open>Retail sales\<close>



subsection \<open>Dispatch sales\<close>

text \<open>
  C3. For a client that exists and a generated id that is not in the ledger,
  \<open>createDispatchSale\<close> succeeds, appends one dispatch sale whose \<open>clientName\<close> is the
  client's business name, or the contact name when the business name is empty, and
  leaves the client's row as it was but for the debt. The debt becomes the debt read
  plus the total of the sale, added once, in doubles; when debt and subtotals are
  numbers and no addition rounds, it is the debt before plus the sum of the subtotals.
  No other client is touched.
\<close>

theorem createDispatchSale_effect:
  assumes client: "selectClient cid d = Some c"
    and fresh: "generateId e \<notin> sale_id ` set (sales d)"
  shows "fst (createDispatchSale e cid its seller d) = Inr () \<and>
         sales (snd (createDispatchSale e cid its seller d)) = sales d @
            [\<lparr>sale_id = generateId e, date = now e, sale_type = dispatch,
              items = map itemJSON its,
              totalAmount = toJSON (foldl (\<lambda>sum item. jplus sum (subtotal item)) (Num 0) its),
              clientId = Value cid,
              clientName = Value (if businessName c = [] then client_name c else businessName c),
              sellerId = seller\<rparr>] \<and>
         selectClient cid (snd (createDispatchSale e cid its seller d)) =
            Some (c\<lparr>debt := toJSON (jplus (debt c)
                    (foldl (\<lambda>sum item. jplus sum (subtotal item)) (Num 0) its))\<rparr>) \<and>
         (\<forall>a rs. debt c = Num a \<longrightarrow> map subtotal its = map Num rs \<longrightarrow> exactSums 0 rs \<longrightarrow>
            representable (a + sum_list rs) \<longrightarrow>
            debtOf cid (snd (createDispatchSale e cid its seller d)) = Some (Num (a + sum_list rs))) \<and>
         (\<forall>k. k \<noteq> cid \<longrightarrow>
            selectClient k (snd (createDispatchSale e cid its seller d)) = selectClient k d)"
proof -
  let ?d' = "snd (createDispatchSale e cid its seller d)"
  note sel = createDispatchSale_clients [OF client fresh, of _ its seller]
  have ok: "fst (createDispatchSale e cid its seller d) = Inr ()"
    by (simp add: createDispatchSale_found [OF client fresh])
  have exact: "debtOf cid ?d' = Some (Num (a + sum_list rs))"
    if "debt c = Num a" and "map subtotal its = map Num rs" and "exactSums 0 rs"
      and "representable (a + sum_list rs)" for a rs
    using that(1,4)
    by (simp add: debtOf_def sel subtotals_exact [OF that(2,3)] jplus_Num representable_def)
  show ?thesis
    using ok exact
    by (simp add: createDispatchSale_sales [OF client fresh] sel)
qed

text \<open>
  The spec's example: debt 20 and a dispatch of total 10 give debt 30, under the business
  name; for a client without a business name the sale carries the contact name.
\<close>

theorem createDispatchSale_effect_witness:
  "selectClient ''C'' ex_db = Some (ex_client ''C'' ''Ana'' ''Bodega'' 20) \<and>
   selectClient ''D'' ex_db = Some (ex_client ''D'' ''Luis'' [] 70) \<and>
   generateId (ex_env ''u1'') \<notin> sale_id ` set (sales ex_db) \<and>
   debt (ex_client ''C'' ''Ana'' ''Bodega'' 20) = Num 20 \<and>
   map subtotal [ex_item ''Q'' 2 5] = map Num [10] \<and> exactSums 0 [10] \<and>
   representable (20 + sum_list [10]) \<and>
   debtOf ''C'' (snd (createDispatchSale (ex_env ''u1'') ''C'' [ex_item ''Q'' 2 5] ''S'' ex_db))
     = Some (Num 30) \<and>
   map clientName (sales (snd (createDispatchSale (ex_env ''u1'') ''C'' [ex_item ''Q'' 2 5] ''S'' ex_db)))
     = [Value ''Bodega''] \<and>
   map clientName (sales (snd (createDispatchSale (ex_env ''u1'') ''D'' [ex_item ''Q'' 2 5] ''S'' ex_db)))
     = [Value ''Luis'']"
proof -
  have client: "selectClient ''C'' ex_db = Some (ex_client ''C'' ''Ana'' ''Bodega'' 20)"
    by (simp add: ex_defs query_defs)
  have client2: "selectClient ''D'' ex_db = Some (ex_client ''D'' ''Luis'' [] 70)"
    by (simp add: ex_defs query_defs)
  have fresh: "generateId (ex_env ''u1'') \<notin> sale_id ` set (sales ex_db)"
    by (simp add: ex_defs)
  have owed: "debt (ex_client ''C'' ''Ana'' ''Bodega'' 20) = Num 20"
    by (simp add: ex_client_def fl_int)
  have subs: "map subtotal [ex_item ''Q'' 2 5] = map Num [10]"
    by (simp add: ex_item_def fl_int)
  have ex: "exactSums 0 [10]"
    by (simp add: representable_int)
  have rep: "representable (20 + sum_list [10])"
    by (simp add: representable_int)
  have nosale: "sales ex_db = []"
    by (simp add: ex_defs)
  note eff = createDispatchSale_effect [OF client fresh, of "[ex_item ''Q'' 2 5]" "''S''"]
  note eff2 = createDispatchSale_effect [OF client2 fresh, of "[ex_item ''Q'' 2 5]" "''S''"]
  from eff owed subs ex rep
  have "debtOf ''C'' (snd (createDispatchSale (ex_env ''u1'') ''C'' [ex_item ''Q'' 2 5] ''S'' ex_db))
     = Some (Num (20 + sum_list [10]))"
    by blast
  moreover from eff
  have "map clientName (sales (snd (createDispatchSale (ex_env ''u1'') ''C'' [ex_item ''Q'' 2 5] ''S'' ex_db)))
     = [Value ''Bodega'']"
    by (simp add: nosale) (simp add: ex_client_def)
  moreover from eff2
  have "map clientName (sales (snd (createDispatchSale (ex_env ''u1'') ''D'' [ex_item ''Q'' 2 5] ''S'' ex_db)))
     = [Value ''Luis'']"
    by (simp add: nosale) (simp add: ex_client_def)
  ultimately show ?thesis
    using client client2 fresh owed subs ex rep by simp
qed

subsection \<open>Payments\<close>

text \<open>
  C4. For a client that exists and any amount, \<open>registerClientPayment\<close> succeeds and
  leaves the client's row as it was but for the debt. The debt written is
  \<^verbatim>\<open>Math.max(0, debt - amount)\<close> as the program computes it, in doubles, and as the
  request carries it: it is never below zero, and when debt and amount are numbers and
  the subtraction does not round it is the larger of \<open>0\<close> and their difference. (Where
  the result is no finite number, as for an amount that is \<^verbatim>\<open>NaN\<close>, the request
  carries \<^verbatim>\<open>null\<close>.) Other clients, the products, the ledger and the suspended sales
  are untouched.
\<close>

theorem registerClientPayment_effect:
  assumes client: "selectClient cid d = Some c"
  shows "fst (registerClientPayment cid amount d) = Inr () \<and>
         selectClient cid (snd (registerClientPayment cid amount d)) =
            Some (c\<lparr>debt := toJSON (jmax (Num 0) (jminus (debt c) amount))\<rparr>) \<and>
         (\<forall>a b. debt c = Num a \<longrightarrow> amount = Num b \<longrightarrow> representable (a - b) \<longrightarrow>
            debtOf cid (snd (registerClientPayment cid amount d)) = Some (Num (max 0 (a - b)))) \<and>
         (\<forall>x. debtOf cid (snd (registerClientPayment cid amount d)) = Some x \<longrightarrow> \<not> negative x) \<and>
         (\<forall>k. k \<noteq> cid \<longrightarrow>
            selectClient k (snd (registerClientPayment cid amount d)) = selectClient k d) \<and>
         products (snd (registerClientPayment cid amount d)) = products d \<and>
         sales (snd (registerClientPayment cid amount d)) = sales d \<and>
         suspended_sales (snd (registerClientPayment cid amount d)) = suspended_sales d"
proof -
  let ?d' = "snd (registerClientPayment cid amount d)"
  let ?f = "\<lambda>r. r\<lparr>debt := toJSON (jmax (Num 0) (jminus (debt c) amount))\<rparr>"
  have sel: "selectClient k ?d' =
             (if k = cid then map_option ?f (selectClient k d) else selectClient k d)" for k
    unfolding registerClientPayment_found [OF client] snd_conv
    by (rule selectClient_update) simp
  have dv: "debtOf cid ?d' = Some (toJSON (jmax (Num 0) (jminus (debt c) amount)))"
    by (simp add: debtOf_def sel client)
  have exact: "debtOf cid ?d' = Some (Num (max 0 (a - b)))"
    if "debt c = Num a" and "amount = Num b" and "representable (a - b)" for a b
    unfolding dv using that by (simp add: jminus_Num jmax_Num representable_def)
  have nonneg: "\<not> negative x" if "debtOf cid ?d' = Some x" for x
    using that unfolding dv by (auto simp: not_negative_stored_jmax)
  have frame: "fst (registerClientPayment cid amount d) = Inr () \<and> products ?d' = products d \<and>
      sales ?d' = sales d \<and> suspended_sales ?d' = suspended_sales d"
    by (simp add: registerClientPayment_found [OF client])
  show ?thesis
    using exact nonneg frame by (simp add: sel client)
qed

text \<open>The spec's example: debt 70, a payment of 30 gives 40, a further payment of 100 gives 0.\<close>

theorem registerClientPayment_effect_witness:
  "selectClient ''D'' ex_db = Some (ex_client ''D'' ''Luis'' [] 70) \<and>
   debt (ex_client ''D'' ''Luis'' [] 70) = Num 70 \<and> representable (70 - 30) \<and>
   debtOf ''D'' (snd (registerClientPayment ''D'' (Num 30) ex_db)) = Some (Num 40) \<and>
   selectClient ''D'' (snd (registerClientPayment ''D'' (Num 30) ex_db))
     = Some (ex_client ''D'' ''Luis'' [] 40) \<and>
   debtOf ''D'' (snd (registerClientPayment ''D'' (Num 100)
      (snd (registerClientPayment ''D'' (Num 30) ex_db)))) = Some (Num 0)"
proof -
  have c1: "selectClient ''D'' ex_db = Some (ex_client ''D'' ''Luis'' [] 70)"
    by (simp add: ex_defs query_defs)
  have owed: "debt (ex_client ''D'' ''Luis'' [] 70) = Num 70"
    by (simp add: ex_client_def fl_int)
  have rep: "representable (70 - 30)"
    by (simp add: representable_int)
  note e1 = registerClientPayment_effect [OF c1, of "Num 30"]
  from e1 owed rep
  have d1: "debtOf ''D'' (snd (registerClientPayment ''D'' (Num 30) ex_db)) = Some (Num (max 0 (70 - 30)))"
    by blast
  from e1 have "selectClient ''D'' (snd (registerClientPayment ''D'' (Num 30) ex_db)) =
      Some ((ex_client ''D'' ''Luis'' [] 70)\<lparr>debt := toJSON (jmax (Num 0)
              (jminus (debt (ex_client ''D'' ''Luis'' [] 70)) (Num 30)))\<rparr>)"
    by blast
  then have c2: "selectClient ''D'' (snd (registerClientPayment ''D'' (Num 30) ex_db)) =
            Some (ex_client ''D'' ''Luis'' [] 40)"
    by (simp add: ex_client_def num_defs)
  have owed2: "debt (ex_client ''D'' ''Luis'' [] 40) = Num 40"
    by (simp add: ex_client_def fl_int)
  have rep2: "representable (40 - 100)"
    by (simp add: representable_int)
  note e2 = registerClientPayment_effect [OF c2, of "Num 100"]
  from e2 owed2 rep2
  have "debtOf ''D'' (snd (registerClientPayment ''D'' (Num 100)
      (snd (registerClientPayment ''D'' (Num 30) ex_db)))) = Some (Num (max 0 (40 - 100)))"
    by blast
  with c1 owed rep d1 c2 show ?thesis
    by simp
qed

text \<open>
  An amount that is \<^verbatim>\<open>NaN\<close> (what \<^verbatim>\<open>parseFloat\<close> makes of a text that is no number)
  is not rejected: the difference and the maximum are \<^verbatim>\<open>NaN\<close>, and the request
  carries \<^verbatim>\<open>null\<close> for the debt.
\<close>

lemma payment_of_NaN:
  assumes "selectClient cid d = Some c"
  shows "registerClientPayment cid NaN d =
         (Inr (), d\<lparr>clients := update_eq client_id cid (\<lambda>r. r\<lparr>debt := Null\<rparr>) (clients d)\<rparr>)"
proof -
  have "jminus (debt c) NaN = NaN"
    by (cases "debt c") (simp_all add: jminus_def)
  then show ?thesis
    by (simp add: registerClientPayment_found [OF assms] jmax_def)
qed

subsection \<open>The ledger, newest first\<close>

lemma mset_insert_desc: "mset (insert_desc col r xs) = add_mset r (mset xs)"
  by (induction xs) simp_all

lemma set_insert_desc: "set (insert_desc col r xs) = insert r (set xs)"
  by (induction xs) auto

lemma sorted_insert_desc:
  "sorted_wrt (\<lambda>a b. col b \<le> col a) xs \<Longrightarrow> sorted_wrt (\<lambda>a b. col b \<le> col a) (insert_desc col r xs)"
  by (induction xs) (auto simp: set_insert_desc)

lemma sorted_order_desc: "sorted_wrt (\<lambda>a b. col b \<le> col a) (order_desc col rows)"
  unfolding order_desc_def by (induction rows) (simp_all add: sorted_insert_desc)

lemma mset_order_desc: "mset (order_desc col rows) = mset rows"
  unfolding order_desc_def by (induction rows) (simp_all add: mset_insert_desc)

text \<open>
  C10. In every state of the store \<open>getSales\<close> returns the rows of the ledger, each as
  often as the ledger holds it, with the dates in descending order.
\<close>

theorem getSales_sorted_desc:
  "sorted_wrt (\<lambda>a b. date b \<le> date a) (getSales d) \<and> mset (getSales d) = mset (sales d)"
  by (simp add: getSales_def sorted_order_desc mset_order_desc)

subsection \<open>Amending a sale\<close>

lemmas json_defs = saleRow_def itemJSON_def patchSale_def suspendedRow_def cartItemJSON_def

lemma update_eq_distinct:
  assumes "distinct (map col rows)" and "r \<in> set rows"
  shows "update_eq col (col r) f rows = map (\<lambda>x. if x = r then f x else x) rows"
proof -
  have "inj_on col (set rows)"
    using assms(1) by (simp add: distinct_map)
  then have "col x = col r \<longleftrightarrow> x = r" if "x \<in> set rows" for x
    using that assms(2) by (auto dest: inj_onD)
  then show ?thesis
    by (auto simp: update_eq_def)
qed

lemma written_same: "written v v = v"
  by (cases v) simp_all

lemma patchSale_edited:
  "patchSale (sel\<lparr>items := its, totalAmount := t\<rparr>) sel =
   sel\<lparr>items := map itemJSON its, totalAmount := toJSON t\<rparr>"
  by (simp add: patchSale_def written_same)

text \<open>
  C9, as amended. \<open>updateSale\<close> succeeds, leaves products, clients and suspended sales
  as they were, and touches no sale under another id; into the rows under the id of
  the sale it is given it writes every column that this sale has: id, date, type,
  items, total and seller, and client id and client name where the object has them.
  \<open>saveEditedSale\<close> hands it the selected sale with only \<open>items\<close> and \<open>totalAmount\<close>
  replaced (the edited items of positive quantity, and the sum of their subtotals as
  the program adds them), so for a sale of the ledger, ids being unique, the stored
  sale changes in these two fields alone, and every stock, every debt and every other
  sale stays the same.
\<close>

theorem amend_frame:
  "fst (updateSale u d) = Inr () \<and>
   products (snd (updateSale u d)) = products d \<and>
   clients (snd (updateSale u d)) = clients d \<and>
   suspended_sales (snd (updateSale u d)) = suspended_sales d \<and>
   sales (snd (updateSale u d)) =
     map (\<lambda>s. if sale_id s = sale_id u
              then s\<lparr>sale_id := sale_id u, date := date u, sale_type := sale_type u,
                     items := map itemJSON (items u), totalAmount := toJSON (totalAmount u),
                     clientId := written (clientId u) (clientId s),
                     clientName := written (clientName u) (clientName s),
                     sellerId := sellerId u\<rparr>
              else s) (sales d) \<and>
   products (snd (saveEditedSale selected edits d)) = products d \<and>
   clients (snd (saveEditedSale selected edits d)) = clients d \<and>
   suspended_sales (snd (saveEditedSale selected edits d)) = suspended_sales d \<and>
   (distinct (map sale_id (sales d)) \<longrightarrow> sel \<in> set (sales d) \<longrightarrow>
      sales (snd (saveEditedSale (Some sel) edits d)) =
        map (\<lambda>s. if s = sel
                 then s\<lparr>items := map itemJSON (filter (\<lambda>i. 0 < quantity i) edits),
                        totalAmount := toJSON (foldl (\<lambda>acc curr. jplus acc (subtotal curr)) (Num 0)
                                                 (filter (\<lambda>i. 0 < quantity i) edits))\<rparr>
                 else s) (sales d))"
proof -
  have upd: "fst (updateSale u d) = Inr () \<and>
      products (snd (updateSale u d)) = products d \<and>
      clients (snd (updateSale u d)) = clients d \<and>
      suspended_sales (snd (updateSale u d)) = suspended_sales d \<and>
      sales (snd (updateSale u d)) =
        map (\<lambda>s. if sale_id s = sale_id u
              then s\<lparr>sale_id := sale_id u, date := date u, sale_type := sale_type u,
                     items := map itemJSON (items u), totalAmount := toJSON (totalAmount u),
                     clientId := written (clientId u) (clientId s),
                     clientName := written (clientName u) (clientName s),
                     sellerId := sellerId u\<rparr>
              else s) (sales d)"
    by (simp add: updateSale_def update_eq_def patchSale_def)
  have frame: "products (snd (saveEditedSale selected edits d)) = products d \<and>
      clients (snd (saveEditedSale selected edits d)) = clients d \<and>
      suspended_sales (snd (saveEditedSale selected edits d)) = suspended_sales d"
    by (simp add: saveEditedSale_def updateSale_def Let_def split: option.splits)
  have edited: "sales (snd (saveEditedSale (Some sel) edits d)) =
        map (\<lambda>s. if s = sel
                 then s\<lparr>items := map itemJSON (filter (\<lambda>i. 0 < quantity i) edits),
                        totalAmount := toJSON (foldl (\<lambda>acc curr. jplus acc (subtotal curr)) (Num 0)
                                                 (filter (\<lambda>i. 0 < quantity i) edits))\<rparr>
                 else s) (sales d)"
    if dist: "distinct (map sale_id (sales d))" and mem: "sel \<in> set (sales d)"
  proof -
    let ?its = "filter (\<lambda>i. 0 < quantity i) edits"
    let ?t = "foldl (\<lambda>acc curr. jplus acc (subtotal curr)) (Num 0) ?its"
    let ?new = "sel\<lparr>items := map itemJSON ?its, totalAmount := toJSON ?t\<rparr>"
    have "sales (snd (saveEditedSale (Some sel) edits d)) =
          update_eq sale_id (sale_id sel) (patchSale (sel\<lparr>items := ?its, totalAmount := ?t\<rparr>)) (sales d)"
      by (simp add: saveEditedSale_def updateSale_def Let_def)
    also have "\<dots> = map (\<lambda>x. if x = sel then patchSale (sel\<lparr>items := ?its, totalAmount := ?t\<rparr>) x else x)
                       (sales d)"
      by (rule update_eq_distinct [OF dist mem])
    also have "\<dots> = map (\<lambda>s. if s = sel
                 then s\<lparr>items := map itemJSON ?its, totalAmount := toJSON ?t\<rparr>
                 else s) (sales d)"
      by (rule map_cong) (auto simp: patchSale_edited)
    finally show ?thesis .
  qed
  from upd frame edited show ?thesis by blast
qed

text \<open>
  An edit of the first of the two sales of a ledger: quantity 4 becomes 3, an item of
  quantity 0 is dropped, and the other sale stays as it was.
\<close>

theorem amend_frame_witness:
  "distinct (map sale_id (sales (ex_db\<lparr>sales := [ex_sale, ex_sale2]\<rparr>))) \<and>
   ex_sale \<in> set (sales (ex_db\<lparr>sales := [ex_sale, ex_sale2]\<rparr>)) \<and>
   sales (snd (saveEditedSale (Some ex_sale) [ex_item ''P'' 3 1, ex_item ''Q'' 0 1]
                 (ex_db\<lparr>sales := [ex_sale, ex_sale2]\<rparr>)))
     = [ex_sale\<lparr>items := [ex_item ''P'' 3 1], totalAmount := Num 3\<rparr>, ex_sale2] \<and>
   products (snd (saveEditedSale (Some ex_sale) [ex_item ''P'' 3 1, ex_item ''Q'' 0 1]
                 (ex_db\<lparr>sales := [ex_sale, ex_sale2]\<rparr>)))
     = products ex_db"
proof -
  let ?d = "ex_db\<lparr>sales := [ex_sale, ex_sale2]\<rparr>"
  let ?edits = "[ex_item ''P'' 3 1, ex_item ''Q'' 0 1]"
  have dist: "distinct (map sale_id (sales ?d))"
    by (simp add: ex_sale_def ex_sale2_def)
  have mem: "ex_sale \<in> set (sales ?d)" by simp
  have ne: "ex_sale2 \<noteq> ex_sale"
    by (simp add: ex_sale_def ex_sale2_def)
  have its: "map itemJSON (filter (\<lambda>i. 0 < quantity i) ?edits) = [ex_item ''P'' 3 1]"
    by (simp add: ex_item_def itemJSON_def fl_int)
  have tot: "toJSON (foldl (\<lambda>acc curr. jplus acc (subtotal curr)) (Num 0)
                 (filter (\<lambda>i. 0 < quantity i) ?edits)) = Num 3"
    by (simp add: ex_item_def jplus_def fl_int)
  note fr = amend_frame [of ex_sale ?d "Some ex_sale" ?edits ex_sale]
  from fr dist mem have "sales (snd (saveEditedSale (Some ex_sale) ?edits ?d))
     = map (\<lambda>s. if s = ex_sale
                 then s\<lparr>items := map itemJSON (filter (\<lambda>i. 0 < quantity i) ?edits),
                        totalAmount := toJSON (foldl (\<lambda>acc curr. jplus acc (subtotal curr)) (Num 0)
                                                 (filter (\<lambda>i. 0 < quantity i) ?edits))\<rparr>
                 else s) (sales ?d)"
    by blast
  then have "sales (snd (saveEditedSale (Some ex_sale) ?edits ?d))
     = [ex_sale\<lparr>items := [ex_item ''P'' 3 1], totalAmount := Num 3\<rparr>, ex_sale2]"
    unfolding its tot using ne by simp
  moreover from fr have "products (snd (saveEditedSale (Some ex_sale) ?edits ?d)) = products ?d"
    by blast
  ultimately show ?thesis
    using dist mem by simp
qed

text \<open>
  The claim as stated fails for \<open>updateSale\<close>: given a sale under the id of a stored one
  that differs from it in type and seller, the stored type and seller are overwritten,
  not the items and the total alone.
\<close>

theorem update_overwrites_counterexample:
  "ex_sale \<in> set (sales (ex_db\<lparr>sales := [ex_sale, ex_sale2]\<rparr>)) \<and>
   sales (snd (updateSale (ex_sale\<lparr>sale_type := dispatch, sellerId := ''T''\<rparr>)
                 (ex_db\<lparr>sales := [ex_sale, ex_sale2]\<rparr>)))
     = [ex_sale\<lparr>sale_type := dispatch, sellerId := ''T''\<rparr>, ex_sale2] \<and>
   sale_type ex_sale = pos \<and> sellerId ex_sale = ''S''"
  by (simp add: updateSale_def update_eq_def patchSale_def itemJSON_def ex_sale_def ex_sale2_def
        ex_item_def fl_int)

subsection \<open>Resuming a suspended sale\<close>

lemma delete_eq_idem: "delete_eq col v (delete_eq col v rows) = delete_eq col v rows"
  by (simp add: delete_eq_def)

lemma removeSuspendedSale_idem:
  "removeSuspendedSale i (removeSuspendedSale i d) = removeSuspendedSale i d"
  by (simp add: removeSuspendedSale_def delete_eq_idem)

lemma suspendedRow_ex: "suspendedRow ex_suspended = ex_suspended"
  by (simp add: suspendedRow_def cartItemJSON_def ex_suspended_def ex_cart_item_def fl_int)

text \<open>
  C8, as amended. For a suspended sale that the store holds, a resume that goes ahead
  (the cart is empty, or the seller confirms the overwrite) puts exactly the held items
  into the cart and removes every record under that id from the store, touching
  nothing else. A second resume with the same record does not fail: it puts the same
  items into the cart again and leaves the store as the first resume left it.
\<close>

theorem handleResumeSale_effect:
  assumes held: "suspended \<in> set (getSuspendedSales d)"
    and go: "cart = [] \<or> confirmed"
  shows "fst (handleResumeSale confirmed suspended (cart, d)) = susp_items suspended \<and>
         getSuspendedSales (snd (handleResumeSale confirmed suspended (cart, d))) =
           filter (\<lambda>s. susp_id s \<noteq> susp_id suspended) (getSuspendedSales d) \<and>
         suspended \<notin> set (getSuspendedSales (snd (handleResumeSale confirmed suspended (cart, d)))) \<and>
         products (snd (handleResumeSale confirmed suspended (cart, d))) = products d \<and>
         clients (snd (handleResumeSale confirmed suspended (cart, d))) = clients d \<and>
         sales (snd (handleResumeSale confirmed suspended (cart, d))) = sales d \<and>
         (\<forall>cart2 confirmed2. cart2 = [] \<or> confirmed2 \<longrightarrow>
            handleResumeSale confirmed2 suspended
                (cart2, snd (handleResumeSale confirmed suspended (cart, d))) =
              (susp_items suspended, snd (handleResumeSale confirmed suspended (cart, d))))"
proof -
  have first: "handleResumeSale confirmed suspended (cart, d) =
               (susp_items suspended, removeSuspendedSale (susp_id suspended) d)"
    using go by (auto simp: handleResumeSale_def)
  have second: "handleResumeSale confirmed2 suspended
                  (cart2, removeSuspendedSale (susp_id suspended) d) =
               (susp_items suspended, removeSuspendedSale (susp_id suspended) d)"
    if "cart2 = [] \<or> confirmed2" for cart2 confirmed2
    using that by (auto simp: handleResumeSale_def removeSuspendedSale_idem)
  show ?thesis
    unfolding first fst_conv snd_conv
    by (simp add: second) (simp add: removeSuspendedSale_def getSuspendedSales_def delete_eq_def)
qed

text \<open>A held cart of the walk-in customer is resumed over a cart that holds one item.\<close>

theorem handleResumeSale_effect_witness:
  "ex_suspended \<in> set (getSuspendedSales (addSuspendedSale ex_suspended ex_db)) \<and>
   fst (handleResumeSale True ex_suspended ([ex_cart_item ''Q'' 1], addSuspendedSale ex_suspended ex_db))
     = [ex_cart_item ''P'' 3] \<and>
   getSuspendedSales (snd (handleResumeSale True ex_suspended
      ([ex_cart_item ''Q'' 1], addSuspendedSale ex_suspended ex_db))) = []"
proof -
  have held: "ex_suspended \<in> set (getSuspendedSales (addSuspendedSale ex_suspended ex_db))"
    by (simp add: getSuspendedSales_def addSuspendedSale_def insert_row_def ex_db_def
          suspendedRow_ex)
  have go: "[ex_cart_item ''Q'' 1] = [] \<or> True" by simp
  note eff = handleResumeSale_effect [OF held go]
  from eff held show ?thesis
    by (simp add: getSuspendedSales_def addSuspendedSale_def insert_row_def ex_db_def
          suspendedRow_ex)
       (simp add: ex_suspended_def)
qed

text \<open>
  The claim as stated fails: after the first resume has emptied the store, a second
  resume with the same record returns the items once more, with no error.
\<close>

theorem second_resume_counterexample:
  "ex_suspended \<in> set (getSuspendedSales (addSuspendedSale ex_suspended ex_db)) \<and>
   handleResumeSale True ex_suspended ([], addSuspendedSale ex_suspended ex_db)
     = ([ex_cart_item ''P'' 3], ex_db) \<and>
   handleResumeSale True ex_suspended ([], ex_db) = ([ex_cart_item ''P'' 3], ex_db)"
  by (simp add: handleResumeSale_def removeSuspendedSale_def getSuspendedSales_def
        addSuspendedSale_def insert_row_def delete_eq_def suspendedRow_ex ex_db_def)
     (simp add: ex_suspended_def)

subsection \<open>Failing calls and missing products\<close>




subsection \<open>What the calls do not guard\<close>




text \<open>
  C7, as amended. No call is rejected for what its arguments are worth: there is no
  validation of the item list, of a quantity or of an amount. \<open>createRetailSale\<close> is
  rejected exactly when the store refuses the insert of the sale, \<open>createDispatchSale\<close>
  exactly when the client does not exist or the insert is refused, and
  \<open>registerClientPayment\<close> exactly when the client does not exist. A rejected call
  leaves the store, and so every stock, every debt and the ledger, as it was.
\<close>

theorem rejections_only:
  "(fst (createRetailSale e its seller d) = Inr ()) = (generateId e \<notin> sale_id ` set (sales d)) \<and>
   (fst (createDispatchSale e cid its seller d) = Inr ()) =
      (selectClient cid d \<noteq> None \<and> generateId e \<notin> sale_id ` set (sales d)) \<and>
   (fst (registerClientPayment cid amount d) = Inr ()) = (selectClient cid d \<noteq> None) \<and>
   (\<forall>err. fst (createRetailSale e its seller d) = Inl err \<longrightarrow>
      err = PostgrestError \<and> snd (createRetailSale e its seller d) = d) \<and>
   (\<forall>err. fst (createDispatchSale e cid its seller d) = Inl err \<longrightarrow>
      (err = PostgrestError \<or> err = Error ''Cliente no existe'') \<and>
      snd (createDispatchSale e cid its seller d) = d) \<and>
   (\<forall>err. fst (registerClientPayment cid amount d) = Inl err \<longrightarrow>
      err = Error ''Cliente no encontrado'' \<and> snd (registerClientPayment cid amount d) = d)"
proof -
  have retail: "(fst (createRetailSale e its seller d) = Inr ()) = (generateId e \<notin> sale_id ` set (sales d))"
    by (cases "generateId e \<in> sale_id ` set (sales d)")
       (simp_all add: createRetailSale_taken createRetailSale_fresh)
  have retail_err: "err = PostgrestError" if "fst (createRetailSale e its seller d) = Inl err" for err
    using that by (cases "generateId e \<in> sale_id ` set (sales d)")
       (simp_all add: createRetailSale_taken createRetailSale_fresh)
  have disp: "(fst (createDispatchSale e cid its seller d) = Inr ()) =
      (selectClient cid d \<noteq> None \<and> generateId e \<notin> sale_id ` set (sales d))"
  proof (cases "selectClient cid d")
    case None
    then show ?thesis by (simp add: createDispatchSale_missing)
  next
    case (Some c)
    then show ?thesis
      by (cases "generateId e \<in> sale_id ` set (sales d)")
         (simp_all add: createDispatchSale_taken createDispatchSale_found)
  qed
  have disp_err: "err = PostgrestError \<or> err = Error ''Cliente no existe''"
    if "fst (createDispatchSale e cid its seller d) = Inl err" for err
  proof (cases "selectClient cid d")
    case None
    with that show ?thesis by (simp add: createDispatchSale_missing)
  next
    case (Some c)
    with that show ?thesis
      by (cases "generateId e \<in> sale_id ` set (sales d)")
         (simp_all add: createDispatchSale_taken createDispatchSale_found)
  qed
  have pay: "(fst (registerClientPayment cid amount d) = Inr ()) = (selectClient cid d \<noteq> None)"
    by (cases "selectClient cid d")
       (simp_all add: registerClientPayment_missing registerClientPayment_found)
  have pay_err: "err = Error ''Cliente no encontrado''"
    if "fst (registerClientPayment cid amount d) = Inl err" for err
    using that by (cases "selectClient cid d")
       (simp_all add: registerClientPayment_missing registerClientPayment_found)
  have e1: "\<forall>err. fst (createRetailSale e its seller d) = Inl err \<longrightarrow>
      err = PostgrestError \<and> snd (createRetailSale e its seller d) = d"
    using retail_err createRetailSale_failed by blast
  have e2: "\<forall>err. fst (createDispatchSale e cid its seller d) = Inl err \<longrightarrow>
      (err = PostgrestError \<or> err = Error ''Cliente no existe'') \<and>
      snd (createDispatchSale e cid its seller d) = d"
    using disp_err createDispatchSale_failed by blast
  have e3: "\<forall>err. fst (registerClientPayment cid amount d) = Inl err \<longrightarrow>
      err = Error ''Cliente no encontrado'' \<and> snd (registerClientPayment cid amount d) = d"
    using pay_err registerClientPayment_failed by blast
  from retail disp pay e1 e2 e3 show ?thesis
    by (intro conjI)
qed

text \<open>The three rejections, on a store whose ledger holds the id that is generated.\<close>

theorem rejections_only_witness:
  "fst (createRetailSale (ex_env ''s1'') [] ''S'' (ex_db\<lparr>sales := [ex_sale]\<rparr>)) = Inl PostgrestError \<and>
   snd (createRetailSale (ex_env ''s1'') [] ''S'' (ex_db\<lparr>sales := [ex_sale]\<rparr>)) = ex_db\<lparr>sales := [ex_sale]\<rparr> \<and>
   fst (createDispatchSale (ex_env ''s1'') ''Z'' [] ''S'' (ex_db\<lparr>sales := [ex_sale]\<rparr>))
     = Inl (Error ''Cliente no existe'') \<and>
   snd (createDispatchSale (ex_env ''s1'') ''Z'' [] ''S'' (ex_db\<lparr>sales := [ex_sale]\<rparr>))
     = ex_db\<lparr>sales := [ex_sale]\<rparr> \<and>
   fst (registerClientPayment ''Z'' (Num 0) (ex_db\<lparr>sales := [ex_sale]\<rparr>))
     = Inl (Error ''Cliente no encontrado'') \<and>
   snd (registerClientPayment ''Z'' (Num 0) (ex_db\<lparr>sales := [ex_sale]\<rparr>)) = ex_db\<lparr>sales := [ex_sale]\<rparr>"
proof -
  let ?d = "ex_db\<lparr>sales := [ex_sale]\<rparr>"
  have noclient: "selectClient ''Z'' ?d = None"
    by (simp add: ex_defs query_defs)
  have r: "fst (createRetailSale (ex_env ''s1'') [] ''S'' ?d) = Inl PostgrestError"
    by (simp add: createRetailSale_taken generateId_def ex_env_def ex_sale_def)
  have c: "fst (createDispatchSale (ex_env ''s1'') ''Z'' [] ''S'' ?d) = Inl (Error ''Cliente no existe'')"
    by (simp add: createDispatchSale_missing [OF noclient])
  have p: "fst (registerClientPayment ''Z'' (Num 0) ?d) = Inl (Error ''Cliente no encontrado'')"
    by (simp add: registerClientPayment_missing [OF noclient])
  note t = rejections_only [of "ex_env ''s1''" "[]" "''S''" ?d "''Z''" "Num 0"]
  from t r have "snd (createRetailSale (ex_env ''s1'') [] ''S'' ?d) = ?d" by blast
  moreover from t c have "snd (createDispatchSale (ex_env ''s1'') ''Z'' [] ''S'' ?d) = ?d" by blast
  moreover from t p have "snd (registerClientPayment ''Z'' (Num 0) ?d) = ?d" by blast
  ultimately show ?thesis using r c p by simp
qed

text \<open>
  The claim as stated fails: an empty item list is accepted and persisted as a sale, a
  quantity of \<open>-3\<close> is accepted and raises the stock (10 to 13), and a payment of \<open>-5\<close>
  is accepted and raises the debt (20 to 25).
\<close>

theorem no_validation_counterexample:
  "fst (createRetailSale (ex_env ''u1'') [] ''S'' ex_db) = Inr () \<and>
   sales ex_db = [] \<and>
   map items (sales (snd (createRetailSale (ex_env ''u1'') [] ''S'' ex_db))) = [[]] \<and>
   stockOf ''P'' ex_db = Some 10 \<and>
   fst (createRetailSale (ex_env ''u1'') [ex_item ''P'' (- 3) 1] ''S'' ex_db) = Inr () \<and>
   stockOf ''P'' (snd (createRetailSale (ex_env ''u1'') [ex_item ''P'' (- 3) 1] ''S'' ex_db)) = Some 13 \<and>
   debtOf ''C'' ex_db = Some (Num 20) \<and>
   fst (registerClientPayment ''C'' (Num (- 5)) ex_db) = Inr () \<and>
   debtOf ''C'' (snd (registerClientPayment ''C'' (Num (- 5)) ex_db)) = Some (Num 25)"
  by (simp add: op_defs query_defs ex_defs num_defs)

subsection \<open>The same sale id twice\<close>



text \<open>
  A call has no parameter for the id. Two calls that are given different ids, both new
  to the ledger, both succeed: two sales, and the stock decremented twice.
\<close>

lemma different_ids_two_sales:
  assumes f1: "generateId e1 \<notin> sale_id ` set (sales d)"
    and f2: "generateId e2 \<notin> sale_id ` set (sales d)"
    and ne: "generateId e2 \<noteq> generateId e1"
  shows "fst (createRetailSale e2 its seller (snd (createRetailSale e1 its seller d))) = Inr () \<and>
         length (sales (snd (createRetailSale e2 its seller (snd (createRetailSale e1 its seller d)))))
           = length (sales d) + 2 \<and>
         (stockOf p d = Some s \<longrightarrow>
            stockOf p (snd (createRetailSale e2 its seller (snd (createRetailSale e1 its seller d))))
              = Some (s - requested p its - requested p its))"
proof -
  let ?d1 = "snd (createRetailSale e1 its seller d)"
  have f2': "generateId e2 \<notin> sale_id ` set (sales ?d1)"
    using f2 ne by (simp add: createRetailSale_sales [OF f1])
  show ?thesis
    by (simp add: createRetailSale_sales [OF f2'] createRetailSale_sales [OF f1]
          createRetailSale_stock [OF f2'] createRetailSale_stock [OF f1])
       (simp add: createRetailSale_fresh [OF f2'])
qed

end
